theory Spec2Isabelle
  imports Main "HOL-Library.Word"
begin

unbundle bit_operations_syntax

section \<open>Values, exceptions and log records\<close>

text \<open>
  A Python \<open>str\<close> is a sequence of code points in the range 0 .. 0x10FFFF, lone
  surrogates included; \<open>bytes\<close> is a sequence of numbers below 256.  The results
  of the converter are ASCII and are written as HOL strings.
\<close>

type_synonym pystr = "nat list"
type_synonym pybytes = "nat list"

definition is_codepoint :: "nat \<Rightarrow> bool" where
  "is_codepoint c = (c < 0x110000)"

definition is_surrogate :: "nat \<Rightarrow> bool" where
  "is_surrogate c = (0xD800 \<le> c \<and> c \<le> 0xDFFF)"

definition is_text :: "pystr \<Rightarrow> bool" where
  "is_text s = list_all is_codepoint s"

definition is_scalar_text :: "pystr \<Rightarrow> bool" where
  "is_scalar_text s = list_all (\<lambda>c. is_codepoint c \<and> \<not> is_surrogate c) s"

definition text_of :: "string \<Rightarrow> pystr" where
  "text_of cs = map of_char cs"

datatype pyval = PInt int | PStr pystr | PBool bool | PBytes pybytes | PNone

text \<open>\<open>isinstance(v, int)\<close> holds for \<open>bool\<close> as well, a subclass of \<open>int\<close>.\<close>

fun isinstance_int :: "pyval \<Rightarrow> bool" where
  "isinstance_int (PInt n) = True"
| "isinstance_int (PBool b) = True"
| "isinstance_int v = False"

fun isinstance_str :: "pyval \<Rightarrow> bool" where
  "isinstance_str (PStr s) = True"
| "isinstance_str v = False"

fun int_value :: "pyval \<Rightarrow> int" where
  "int_value (PInt n) = n"
| "int_value (PBool b) = (if b then 1 else 0)"
| "int_value v = 0"

fun str_value :: "pyval \<Rightarrow> pystr" where
  "str_value (PStr s) = s"
| "str_value v = []"

text \<open>
  The exceptions the program can raise: \<open>TypeError\<close> with its message, and the
  \<open>UnicodeEncodeError\<close> of the UTF-8 codec with the string, the start and the end of
  the offending run.  \<open>UnicodeEncodeError\<close> is a subclass of \<open>ValueError\<close>.
\<close>

datatype pyexc = TypeError string | UnicodeEncodeError pystr nat nat

fun is_TypeError :: "pyexc \<Rightarrow> bool" where
  "is_TypeError (TypeError m) = True"
| "is_TypeError e = False"

fun is_ValueError :: "pyexc \<Rightarrow> bool" where
  "is_ValueError (UnicodeEncodeError obj i j) = True"
| "is_ValueError e = False"

text \<open>\<open>logging.error\<close> and \<open>logging.exception\<close> (the latter adds the traceback).\<close>

datatype log_entry = LogError string | LogException string

type_synonym 'a outcome = "log_entry list \<times> (pyexc + 'a)"

section \<open>Digits\<close>

definition Py_hexdigits :: string where
  "Py_hexdigits = ''0123456789abcdef''"

function hex_digits :: "nat \<Rightarrow> string" where
  "hex_digits n =
     (if n < 16 then [Py_hexdigits ! n]
      else hex_digits (n div 16) @ [Py_hexdigits ! (n mod 16)])"
  by pat_completeness auto
termination
  by (relation "measure id") auto

declare hex_digits.simps [simp del]

function dec_digits :: "nat \<Rightarrow> string" where
  "dec_digits n =
     (if n < 10 then [''0123456789'' ! n]
      else dec_digits (n div 10) @ [''0123456789'' ! (n mod 10)])"
  by pat_completeness auto
termination
  by (relation "measure id") auto

declare dec_digits.simps [simp del]

text \<open>The builtin \<open>hex\<close>: sign, then \<open>0x\<close>, then the digits of the magnitude.\<close>

definition py_hex :: "int \<Rightarrow> string" where
  "py_hex n = (if n < 0 then ''-'' else '''') @ ''0x'' @ hex_digits (nat \<bar>n\<bar>)"

text \<open>\<open>bytes.hex()\<close>: two digits per byte, high nibble first.\<close>

fun bytes_hex :: "pybytes \<Rightarrow> string" where
  "bytes_hex [] = []"
| "bytes_hex (b # bs) =
     Py_hexdigits ! (b div 16 mod 16) # Py_hexdigits ! (b mod 16) # bytes_hex bs"

section \<open>The UTF-8 codec\<close>

definition utf8_char :: "nat \<Rightarrow> pybytes" where
  "utf8_char c =
     (if c < 0x80 then [c]
      else if c < 0x800 then [0xC0 + c div 64, 0x80 + c mod 64]
      else if c < 0x10000 then
        [0xE0 + c div 4096, 0x80 + c div 64 mod 64, 0x80 + c mod 64]
      else
        [0xF0 + c div 262144, 0x80 + c div 4096 mod 64,
         0x80 + c div 64 mod 64, 0x80 + c mod 64])"

text \<open>
  \<open>str.encode('utf-8')\<close> with the default error handler \<open>strict\<close>: at the first
  surrogate the codec raises, reporting the run of consecutive surrogates that
  starts there.
\<close>

fun utf8_encode_from :: "pystr \<Rightarrow> nat \<Rightarrow> pystr \<Rightarrow> pyexc + pybytes" where
  "utf8_encode_from obj i [] = Inr []"
| "utf8_encode_from obj i (c # cs) =
     (if is_surrogate c then
        Inl (UnicodeEncodeError obj i (i + 1 + length (takeWhile is_surrogate cs)))
      else
        (case utf8_encode_from obj (i + 1) cs of
           Inl e \<Rightarrow> Inl e
         | Inr bs \<Rightarrow> Inr (utf8_char c @ bs)))"

definition str_encode_utf8 :: "pystr \<Rightarrow> pyexc + pybytes" where
  "str_encode_utf8 s = utf8_encode_from s 0 s"

section \<open>Exception messages\<close>

definition zero_pad :: "nat \<Rightarrow> string \<Rightarrow> string" where
  "zero_pad w ds = replicate (w - length ds) (CHR ''0'') @ ds"

definition char_escape :: "nat \<Rightarrow> string" where
  "char_escape c =
     (if c \<le> 0xFF then [CHR 0x5C] @ ''x'' @ zero_pad 2 (hex_digits c)
      else if c \<le> 0xFFFF then [CHR 0x5C] @ ''u'' @ zero_pad 4 (hex_digits c)
      else [CHR 0x5C] @ ''U'' @ zero_pad 8 (hex_digits c))"

fun exc_str :: "pyexc \<Rightarrow> string" where
  "exc_str (TypeError m) = m"
| "exc_str (UnicodeEncodeError obj i j) =
     (if i < length obj \<and> j = i + 1 then
        [CHR 0x27] @ ''utf-8'' @ [CHR 0x27] @ '' codec can'' @ [CHR 0x27]
        @ ''t encode character '' @ [CHR 0x27] @ char_escape (obj ! i) @ [CHR 0x27]
        @ '' in position '' @ dec_digits i @ '': surrogates not allowed''
      else
        [CHR 0x27] @ ''utf-8'' @ [CHR 0x27] @ '' codec can'' @ [CHR 0x27]
        @ ''t encode characters in position '' @ dec_digits i @ ''-''
        @ dec_digits (j - 1) @ '': surrogates not allowed'')"

section \<open>Base64 (RFC 4648, with padding)\<close>

definition b64_alphabet :: string where
  "b64_alphabet = ''ABCDEFGHIJKLMNOPQRSTUVWXYZabcdefghijklmnopqrstuvwxyz0123456789+/''"

definition b64_char :: "nat \<Rightarrow> char" where
  "b64_char i = b64_alphabet ! i"

text \<open>\<open>base64.b64encode\<close>: three bytes give four characters, the tail is padded.\<close>

fun b64encode :: "pybytes \<Rightarrow> string" where
  "b64encode [] = []"
| "b64encode [a] =
     [b64_char (a div 4 mod 64), b64_char (a mod 4 * 16), CHR ''='', CHR ''='']"
| "b64encode [a, b] =
     [b64_char (a div 4 mod 64), b64_char (a mod 4 * 16 + b div 16 mod 16),
      b64_char (b mod 16 * 4), CHR ''='']"
| "b64encode (a # b # c # bs) =
     b64_char (a div 4 mod 64) # b64_char (a mod 4 * 16 + b div 16 mod 16) #
     b64_char (b mod 16 * 4 + c div 64 mod 4) # b64_char (c mod 64) # b64encode bs"

section \<open>MD5 (RFC 1321)\<close>

type_synonym u32 = "32 word"

definition md5_shifts :: "nat list" where
  "md5_shifts =
     [7, 12, 17, 22, 7, 12, 17, 22, 7, 12, 17, 22, 7, 12, 17, 22,
      5, 9, 14, 20, 5, 9, 14, 20, 5, 9, 14, 20, 5, 9, 14, 20,
      4, 11, 16, 23, 4, 11, 16, 23, 4, 11, 16, 23, 4, 11, 16, 23,
      6, 10, 15, 21, 6, 10, 15, 21, 6, 10, 15, 21, 6, 10, 15, 21]"

definition md5_sines :: "u32 list" where
  "md5_sines =
     [0xd76aa478, 0xe8c7b756, 0x242070db, 0xc1bdceee,
      0xf57c0faf, 0x4787c62a, 0xa8304613, 0xfd469501,
      0x698098d8, 0x8b44f7af, 0xffff5bb1, 0x895cd7be,
      0x6b901122, 0xfd987193, 0xa679438e, 0x49b40821,
      0xf61e2562, 0xc040b340, 0x265e5a51, 0xe9b6c7aa,
      0xd62f105d, 0x02441453, 0xd8a1e681, 0xe7d3fbc8,
      0x21e1cde6, 0xc33707d6, 0xf4d50d87, 0x455a14ed,
      0xa9e3e905, 0xfcefa3f8, 0x676f02d9, 0x8d2a4c8a,
      0xfffa3942, 0x8771f681, 0x6d9d6122, 0xfde5380c,
      0xa4beea44, 0x4bdecfa9, 0xf6bb4b60, 0xbebfbc70,
      0x289b7ec6, 0xeaa127fa, 0xd4ef3085, 0x04881d05,
      0xd9d4d039, 0xe6db99e5, 0x1fa27cf8, 0xc4ac5665,
      0xf4292244, 0x432aff97, 0xab9423a7, 0xfc93a039,
      0x655b59c3, 0x8f0ccc92, 0xffeff47d, 0x85845dd1,
      0x6fa87e4f, 0xfe2ce6e0, 0xa3014314, 0x4e0811a1,
      0xf7537e82, 0xbd3af235, 0x2ad7d2bb, 0xeb86d391]"

definition rotl32 :: "nat \<Rightarrow> u32 \<Rightarrow> u32" where
  "rotl32 n x = push_bit n x OR drop_bit (32 - n) x"

definition md5_mix :: "nat \<Rightarrow> u32 \<Rightarrow> u32 \<Rightarrow> u32 \<Rightarrow> u32" where
  "md5_mix i b c d =
     (if i < 16 then (b AND c) OR (NOT b AND d)
      else if i < 32 then (d AND b) OR (NOT d AND c)
      else if i < 48 then b XOR c XOR d
      else c XOR (b OR NOT d))"

definition md5_index :: "nat \<Rightarrow> nat" where
  "md5_index i =
     (if i < 16 then i
      else if i < 32 then (5 * i + 1) mod 16
      else if i < 48 then (3 * i + 5) mod 16
      else (7 * i) mod 16)"

type_synonym md5_state = "u32 \<times> u32 \<times> u32 \<times> u32"

fun md5_round :: "u32 list \<Rightarrow> md5_state \<Rightarrow> nat \<Rightarrow> md5_state" where
  "md5_round m (a, b, c, d) i =
     (d,
      b + rotl32 (md5_shifts ! i)
            (md5_mix i b c d + a + md5_sines ! i + m ! md5_index i),
      b, c)"

fun le_word :: "pybytes \<Rightarrow> u32" where
  "le_word [] = 0"
| "le_word (b # bs) = of_nat (b mod 256) + push_bit 8 (le_word bs)"

fun md5_words :: "nat \<Rightarrow> pybytes \<Rightarrow> u32 list" where
  "md5_words 0 bs = []"
| "md5_words (Suc k) bs = le_word (take 4 bs) # md5_words k (drop 4 bs)"

fun md5_block :: "md5_state \<Rightarrow> pybytes \<Rightarrow> md5_state" where
  "md5_block (a0, b0, c0, d0) block =
     (case foldl (md5_round (md5_words 16 block)) (a0, b0, c0, d0) [0..<64] of
        (a, b, c, d) \<Rightarrow> (a0 + a, b0 + b, c0 + c, d0 + d))"

function md5_blocks :: "md5_state \<Rightarrow> pybytes \<Rightarrow> md5_state" where
  "md5_blocks st bs =
     (if bs = [] then st else md5_blocks (md5_block st (take 64 bs)) (drop 64 bs))"
  by pat_completeness auto
termination
  by (relation "measure (\<lambda>(st, bs). length bs)") auto

declare md5_blocks.simps [simp del]

fun le_bytes :: "nat \<Rightarrow> nat \<Rightarrow> pybytes" where
  "le_bytes 0 n = []"
| "le_bytes (Suc k) n = n mod 256 # le_bytes k (n div 256)"

definition md5_pad :: "pybytes \<Rightarrow> pybytes" where
  "md5_pad bs =
     bs @ [0x80] @ replicate ((119 - length bs mod 64) mod 64) 0
     @ le_bytes 8 (8 * length bs mod 2 ^ 64)"

definition md5_init :: md5_state where
  "md5_init = (0x67452301, 0xefcdab89, 0x98badcfe, 0x10325476)"

definition md5_digest :: "pybytes \<Rightarrow> pybytes" where
  "md5_digest bs =
     (case md5_blocks md5_init (md5_pad bs) of
        (a, b, c, d) \<Rightarrow>
          le_bytes 4 (unat a) @ le_bytes 4 (unat b)
          @ le_bytes 4 (unat c) @ le_bytes 4 (unat d))"

definition md5_hexdigest :: "pybytes \<Rightarrow> string" where
  "md5_hexdigest bs = bytes_hex (md5_digest bs)"

section \<open>The converter\<close>

text \<open>
  \<open>DataTypeConverter.to_hex\<close>.  The \<open>TypeError\<close> is raised inside the \<open>try\<close>, so
  the handler for \<open>Exception\<close> logs it before it propagates.
\<close>

definition to_hex_body :: "pyval \<Rightarrow> pyexc + string" where
  "to_hex_body data =
     (if isinstance_int data then Inr (py_hex (int_value data))
      else if isinstance_str data then
        (case str_encode_utf8 (str_value data) of
           Inl e \<Rightarrow> Inl e
         | Inr bs \<Rightarrow> Inr (bytes_hex bs))
      else Inl (TypeError ''Input must be an integer or string.''))"

definition to_hex :: "pyval \<Rightarrow> string outcome" where
  "to_hex data =
     (case to_hex_body data of
        Inr r \<Rightarrow> ([], Inr r)
      | Inl e \<Rightarrow>
          if is_ValueError e then
            ([LogError (''Error converting to hex: '' @ exc_str e)], Inl e)
          else
            ([LogException (''Unexpected error during hex conversion: '' @ exc_str e)],
             Inl e))"

text \<open>
  \<open>DataTypeConverter.to_base64\<close>.  The type check precedes the \<open>try\<close>; the
  result of \<open>b64encode\<close> is ASCII, so decoding it to \<open>str\<close> keeps every character.
\<close>

definition to_base64 :: "pyval \<Rightarrow> string outcome" where
  "to_base64 data =
     (if \<not> isinstance_str data then ([], Inl (TypeError ''Input must be a string.''))
      else
        (case str_encode_utf8 (str_value data) of
           Inr data_bytes \<Rightarrow> ([], Inr (b64encode data_bytes))
         | Inl e \<Rightarrow>
             if is_ValueError e then
               ([LogError (''Error converting to base64: '' @ exc_str e)], Inl e)
             else
               ([LogException
                   (''Unexpected error during base64 conversion: '' @ exc_str e)],
                Inl e)))"

text \<open>\<open>DataTypeConverter.to_md5\<close>, with its single handler for \<open>Exception\<close>.\<close>

definition to_md5 :: "pyval \<Rightarrow> string outcome" where
  "to_md5 data =
     (if \<not> isinstance_str data then ([], Inl (TypeError ''Input must be a string.''))
      else
        (case str_encode_utf8 (str_value data) of
           Inr data_bytes \<Rightarrow> ([], Inr (md5_hexdigest data_bytes))
         | Inl e \<Rightarrow>
             ([LogException
                 (''Unexpected error during MD5 hash generation: '' @ exc_str e)],
              Inl e)))"

text \<open>
  \<open>DataTypeConverter.randomly_convert\<close>.  \<open>random.choice(methods)\<close> returns
  \<open>methods[i]\<close> for the index \<open>i\<close> that the generator draws below \<open>len(methods)\<close>;
  the drawn index is the parameter \<open>rnd\<close>.  Each method is listed with its
  \<open>__name__\<close>, which the handler writes to the log.
\<close>

definition methods :: "(string \<times> (pyval \<Rightarrow> string outcome)) list" where
  "methods = [(''to_hex'', to_hex), (''to_base64'', to_base64), (''to_md5'', to_md5)]"

definition random_choice :: "nat \<Rightarrow> 'a list \<Rightarrow> 'a" where
  "random_choice rnd xs = xs ! rnd"

definition randomly_convert :: "nat \<Rightarrow> pyval \<Rightarrow> string outcome" where
  "randomly_convert rnd data =
     (if \<not> isinstance_str data then ([], Inl (TypeError ''Input must be a string.''))
      else
        (case random_choice rnd methods of
           (name, chosen_method) \<Rightarrow>
             (case chosen_method data of
                (log, Inr r) \<Rightarrow> (log, Inr r)
              | (log, Inl e) \<Rightarrow>
                  (log @ [LogError (''Error during random conversion using '' @ name
                                    @ '': '' @ exc_str e)],
                   Inl e))))"

section \<open>The builtin \<open>int\<close> on a string\<close>

text \<open>
  \<open>int(s)\<close> in base 10, as CPython 3.11 computes it.  A string with a non-ASCII
  character is first rewritten: Unicode white space becomes a blank, a Unicode
  decimal digit its ASCII digit, any other non-ASCII character ends the buffer
  with a question mark.  Then: blanks, an optional sign, digits with single
  underscores between them, blanks, and nothing else.  More than 4300 digits are
  refused.  \<open>None\<close> stands for the \<open>ValueError\<close>.
\<close>

definition unicode_decimal_starts :: "nat list" where
  "unicode_decimal_starts =
     [0x660, 0x6F0, 0x7C0, 0x966, 0x9E6, 0xA66, 0xAE6, 0xB66,
      0xBE6, 0xC66, 0xCE6, 0xD66, 0xDE6, 0xE50, 0xED0, 0xF20,
      0x1040, 0x1090, 0x17E0, 0x1810, 0x1946, 0x19D0, 0x1A80, 0x1A90,
      0x1B50, 0x1BB0, 0x1C40, 0x1C50, 0xA620, 0xA8D0, 0xA900, 0xA9D0,
      0xA9F0, 0xAA50, 0xABF0, 0xFF10, 0x104A0, 0x10D30, 0x11066, 0x110F0,
      0x11136, 0x111D0, 0x112F0, 0x11450, 0x114D0, 0x11650, 0x116C0, 0x11730,
      0x118E0, 0x11950, 0x11C50, 0x11D50, 0x11DA0, 0x16A60, 0x16AC0, 0x16B50,
      0x1D7CE, 0x1D7D8, 0x1D7E2, 0x1D7EC, 0x1D7F6, 0x1E140, 0x1E2F0, 0x1E950,
      0x1FBF0]"

definition Py_UNICODE_TODECIMAL :: "nat \<Rightarrow> nat option" where
  "Py_UNICODE_TODECIMAL c =
     (if 0x30 \<le> c \<and> c \<le> 0x39 then Some (c - 0x30)
      else
        (case find (\<lambda>s. s \<le> c \<and> c < s + 10) unicode_decimal_starts of
           Some s \<Rightarrow> Some (c - s)
         | None \<Rightarrow> None))"

definition Py_UNICODE_ISSPACE :: "nat \<Rightarrow> bool" where
  "Py_UNICODE_ISSPACE c =
     ((0x09 \<le> c \<and> c \<le> 0x0D) \<or> (0x1C \<le> c \<and> c \<le> 0x20) \<or> c = 0x85 \<or> c = 0xA0
      \<or> c = 0x1680 \<or> (0x2000 \<le> c \<and> c \<le> 0x200A) \<or> c = 0x2028 \<or> c = 0x2029
      \<or> c = 0x202F \<or> c = 0x205F \<or> c = 0x3000)"

definition Py_ISSPACE :: "nat \<Rightarrow> bool" where
  "Py_ISSPACE c = ((0x09 \<le> c \<and> c \<le> 0x0D) \<or> c = 0x20)"

fun transform_chars :: "pystr \<Rightarrow> pystr" where
  "transform_chars [] = []"
| "transform_chars (c # cs) =
     (if c < 127 then c # transform_chars cs
      else if Py_UNICODE_ISSPACE c then 0x20 # transform_chars cs
      else
        (case Py_UNICODE_TODECIMAL c of
           Some d \<Rightarrow> (0x30 + d) # transform_chars cs
         | None \<Rightarrow> [0x3F]))"

definition transform_decimal_and_space_to_ascii :: "pystr \<Rightarrow> pystr" where
  "transform_decimal_and_space_to_ascii s =
     (if list_all (\<lambda>c. c < 128) s then s else transform_chars s)"

text \<open>
  The scan over digits and underscores: \<open>prev\<close> is the character before, \<open>digits\<close>
  the count and \<open>v\<close> the value so far.  The result is \<open>None\<close> for two underscores
  in a row, otherwise the last character read, the count, the value and the rest.
\<close>

fun scan_digits :: "nat \<Rightarrow> nat \<Rightarrow> nat \<Rightarrow> pystr \<Rightarrow> (nat \<times> nat \<times> nat \<times> pystr) option" where
  "scan_digits prev digits v [] = Some (prev, digits, v, [])"
| "scan_digits prev digits v (c # cs) =
     (if c = 0x5F then
        (if prev = 0x5F then None else scan_digits c digits v cs)
      else if 0x30 \<le> c \<and> c \<le> 0x39 then
        scan_digits c (digits + 1) (10 * v + (c - 0x30)) cs
      else Some (prev, digits, v, c # cs))"

definition int_max_str_digits :: nat where
  "int_max_str_digits = 4300"

definition PyLong_FromString :: "pystr \<Rightarrow> int option" where
  "PyLong_FromString buffer =
     (let str = dropWhile Py_ISSPACE buffer;
          negative = (str \<noteq> [] \<and> hd str = 0x2D);
          str = (if str \<noteq> [] \<and> (hd str = 0x2B \<or> hd str = 0x2D) then tl str else str)
      in
        if str \<noteq> [] \<and> hd str = 0x5F then None
        else
          (case scan_digits 0 0 0 str of
             None \<Rightarrow> None
           | Some (prev, digits, v, rest) \<Rightarrow>
               if prev = 0x5F then None
               else if digits > int_max_str_digits then None
               else if digits = 0 then None
               else if dropWhile Py_ISSPACE rest \<noteq> [] then None
               else Some (if negative then - int v else int v)))"

definition py_int :: "pystr \<Rightarrow> int option" where
  "py_int s = PyLong_FromString (transform_decimal_and_space_to_ascii s)"

section \<open>The command line\<close>

datatype conv_method = Hex | Base64 | Md5 | Random

record args =
  data :: pystr
  arg_method :: conv_method

text \<open>
  Standard error receives the log records (the handler that \<open>basicConfig\<close>
  installs writes there) and the printed lines, in the order they are written.
\<close>

datatype stderr_item = Logged log_entry | Printed string

record process_result =
  stdout :: "string list"
  stderr :: "stderr_item list"
  exit_code :: int

text \<open>The body of the \<open>try\<close> in \<open>main\<close>, up to the value of \<open>converted_data\<close>.\<close>

definition convert :: "args \<Rightarrow> nat \<Rightarrow> string outcome" where
  "convert a rnd =
     (case arg_method a of
        Hex \<Rightarrow>
          to_hex (case py_int (data a) of Some n \<Rightarrow> PInt n | None \<Rightarrow> PStr (data a))
      | Base64 \<Rightarrow> to_base64 (PStr (data a))
      | Md5 \<Rightarrow> to_md5 (PStr (data a))
      | Random \<Rightarrow> randomly_convert rnd (PStr (data a)))"

definition main :: "args \<Rightarrow> nat \<Rightarrow> process_result" where
  "main a rnd =
     (case convert a rnd of
        (log, Inr converted_data) \<Rightarrow>
          \<lparr>stdout = [''Converted data: '' @ converted_data],
           stderr = map Logged log, exit_code = 0\<rparr>
      | (log, Inl e) \<Rightarrow>
          if is_TypeError e then
            \<lparr>stdout = [],
             stderr = map Logged log
               @ [Logged (LogError (''Type error: '' @ exc_str e)),
                  Printed (''Error: '' @ exc_str e)],
             exit_code = 1\<rparr>
          else if is_ValueError e then
            \<lparr>stdout = [],
             stderr = map Logged log
               @ [Logged (LogError (''Value error: '' @ exc_str e)),
                  Printed (''Error: '' @ exc_str e)],
             exit_code = 1\<rparr>
          else
            \<lparr>stdout = [],
             stderr = map Logged log
               @ [Logged (LogException (''An unexpected error occurred: '' @ exc_str e)),
                  Printed (''An unexpected error occurred: '' @ exc_str e)],
             exit_code = 1\<rparr>)"

section \<open>Reading the results back\<close>

text \<open>
  What the specification calls the hexadecimal form of a number and of a byte
  string is fixed here by the readers of that form: a lowercase digit has its
  value, a digit string has the value of its digits in base 16, and a byte string
  is read two digits at a time.
\<close>

definition hex_digit_value :: "char \<Rightarrow> nat option" where
  "hex_digit_value c =
     (let v = (of_char c :: nat) in
      if 48 \<le> v \<and> v \<le> 57 then Some (v - 48)
      else if 97 \<le> v \<and> v \<le> 102 then Some (v - 87)
      else None)"

fun parse_hex :: "nat \<Rightarrow> string \<Rightarrow> nat option" where
  "parse_hex acc [] = Some acc"
| "parse_hex acc (c # cs) =
     (case hex_digit_value c of
        None \<Rightarrow> None
      | Some d \<Rightarrow> parse_hex (16 * acc + d) cs)"

definition hex_to_nat :: "string \<Rightarrow> nat option" where
  "hex_to_nat ds = (if ds = [] then None else parse_hex 0 ds)"

fun bytes_fromhex :: "string \<Rightarrow> pybytes option" where
  "bytes_fromhex [] = Some []"
| "bytes_fromhex [c] = None"
| "bytes_fromhex (c1 # c2 # cs) =
     (case (hex_digit_value c1, hex_digit_value c2, bytes_fromhex cs) of
        (Some h, Some l, Some bs) \<Rightarrow> Some ((16 * h + l) # bs)
      | _ \<Rightarrow> None)"

text \<open>
  The two ways an operation on a text can end: with a result and an empty log
  when the text has no surrogate, with the codec's error otherwise.
\<close>

definition op_outcome :: "pystr \<Rightarrow> string outcome \<Rightarrow> bool" where
  "op_outcome s out =
     ((\<not> list_ex is_surrogate s \<and> (\<exists>r. out = ([], Inr r)))
      \<or> (list_ex is_surrogate s \<and> (\<exists>log j k. out = (log, Inl (UnicodeEncodeError s j k)))))"

section \<open>Type errors\<close>

text \<open>
  Claim C6.  For every input that is not a text string, \<open>to_base64\<close>, \<open>to_md5\<close> and
  \<open>randomly_convert\<close> raise \<open>TypeError\<close> ("Input must be a string."), whatever the
  random source would have drawn, and write nothing to the log.
\<close>

theorem non_text_type_error:
  assumes "\<not> isinstance_str v"
  shows "to_base64 v = ([], Inl (TypeError ''Input must be a string.''))
       \<and> to_md5 v = ([], Inl (TypeError ''Input must be a string.''))
       \<and> randomly_convert rnd v = ([], Inl (TypeError ''Input must be a string.''))"
  using assms by (simp add: to_base64_def to_md5_def randomly_convert_def)

theorem non_text_type_error_witness:
  "\<not> isinstance_str (PInt 42)
   \<and> to_base64 (PInt 42) = ([], Inl (TypeError ''Input must be a string.''))
   \<and> to_md5 (PInt 42) = ([], Inl (TypeError ''Input must be a string.''))
   \<and> randomly_convert 2 (PInt 42) = ([], Inl (TypeError ''Input must be a string.''))"
  using non_text_type_error [of "PInt 42" 2] by simp

section \<open>The random choice\<close>

text \<open>
  Claim C5.  For every text \<open>s\<close> and every index the random source can draw below
  three, the result of \<open>randomly_convert\<close> (the returned string, or the exception
  that propagates) is the result of \<open>to_hex\<close>, of \<open>to_base64\<close> or of \<open>to_md5\<close> on
  \<open>s\<close>.
\<close>

theorem randomly_convert_one_of_three:
  assumes "rnd < 3"
  shows "snd (randomly_convert rnd (PStr s))
           \<in> {snd (to_hex (PStr s)), snd (to_base64 (PStr s)), snd (to_md5 (PStr s))}"
proof -
  from assms consider "rnd = 0" | "rnd = 1" | "rnd = 2" by linarith
  then show ?thesis
  proof cases
    case 1
    then have "snd (randomly_convert rnd (PStr s)) = snd (to_hex (PStr s))"
      by (cases "to_hex (PStr s)")
         (auto simp: randomly_convert_def random_choice_def methods_def split: sum.splits)
    then show ?thesis by simp
  next
    case 2
    then have "snd (randomly_convert rnd (PStr s)) = snd (to_base64 (PStr s))"
      by (cases "to_base64 (PStr s)")
         (auto simp: randomly_convert_def random_choice_def methods_def split: sum.splits)
    then show ?thesis by simp
  next
    case 3
    then have "snd (randomly_convert rnd (PStr s)) = snd (to_md5 (PStr s))"
      by (cases "to_md5 (PStr s)")
         (auto simp: randomly_convert_def random_choice_def methods_def split: sum.splits)
    then show ?thesis by simp
  qed
qed

theorem randomly_convert_one_of_three_witness:
  "(1::nat) < 3
   \<and> snd (randomly_convert 1 (PStr (text_of ''abc'')))
       \<in> {snd (to_hex (PStr (text_of ''abc''))), snd (to_base64 (PStr (text_of ''abc''))),
          snd (to_md5 (PStr (text_of ''abc'')))}"
  using randomly_convert_one_of_three [of 1 "text_of ''abc''"] by simp

section \<open>Hexadecimal form of an integer\<close>

lemma hexdigit_table:
  "list_all (\<lambda>k. hex_digit_value (Py_hexdigits ! k) = Some k
       \<and> ((Py_hexdigits ! k = CHR ''0'') = (k = 0))) [0..<16]"
  by code_simp

lemma hexdigit_nth:
  assumes "k < 16"
  shows "hex_digit_value (Py_hexdigits ! k) = Some k"
    and "(Py_hexdigits ! k = CHR ''0'') = (k = 0)"
  using assms hexdigit_table by (auto simp: list_all_iff)

lemma parse_hex_snoc:
  "parse_hex acc (xs @ [c]) =
     (case parse_hex acc xs of
        None \<Rightarrow> None
      | Some v \<Rightarrow> (case hex_digit_value c of None \<Rightarrow> None | Some d \<Rightarrow> Some (16 * v + d)))"
  by (induction xs arbitrary: acc) (auto split: option.splits)

lemma hex_digits_nonempty: "hex_digits n \<noteq> []"
  by (subst hex_digits.simps) simp

lemma parse_hex_digits: "parse_hex 0 (hex_digits n) = Some n"
proof (induction n rule: hex_digits.induct)
  case (1 n)
  show ?case
  proof (cases "n < 16")
    case True
    then show ?thesis
      by (subst hex_digits.simps) (simp add: hexdigit_nth)
  next
    case False
    with 1 have "parse_hex 0 (hex_digits (n div 16)) = Some (n div 16)" by simp
    with False show ?thesis
      by (subst hex_digits.simps) (simp add: parse_hex_snoc hexdigit_nth)
  qed
qed

lemma hd_hex_digits: "(hd (hex_digits n) = CHR ''0'') = (n = 0)"
proof (induction n rule: hex_digits.induct)
  case (1 n)
  show ?case
  proof (cases "n < 16")
    case True
    then show ?thesis
      by (subst hex_digits.simps) (simp add: hexdigit_nth)
  next
    case False
    with 1 have "(hd (hex_digits (n div 16)) = CHR ''0'') = (n div 16 = 0)" by simp
    moreover from False have "n div 16 \<noteq> 0" by simp
    ultimately show ?thesis using False
      by (subst hex_digits.simps) (simp add: hex_digits_nonempty)
  qed
qed

lemma hex_digits_zero: "(hex_digits n = ''0'') = (n = 0)"
proof
  assume "hex_digits n = ''0''"
  then have "hd (hex_digits n) = CHR ''0''" by simp
  then show "n = 0" by (simp add: hd_hex_digits)
next
  assume "n = 0"
  then show "hex_digits n = ''0''"
    by (subst hex_digits.simps) (simp add: Py_hexdigits_def)
qed

text \<open>
  Claim C1, as the code has it.  For every integer \<open>n\<close>, \<open>to_hex\<close> returns, without
  logging, the sign \<open>-\<close> when \<open>n\<close> is negative, then \<open>0x\<close>, then the lowercase
  hexadecimal digits of the magnitude of \<open>n\<close>: a digit string that reads back as
  \<open>\<bar>n\<bar>\<close> and has no leading zero (it is \<open>0\<close> exactly for \<open>n = 0\<close>).
\<close>

theorem to_hex_int:
  "to_hex (PInt n)
     = ([], Inr ((if n < 0 then ''-0x'' else ''0x'') @ hex_digits (nat \<bar>n\<bar>)))
   \<and> hex_to_nat (hex_digits (nat \<bar>n\<bar>)) = Some (nat \<bar>n\<bar>)
   \<and> (hd (hex_digits (nat \<bar>n\<bar>)) = CHR ''0'') = (n = 0)
   \<and> (hex_digits (nat \<bar>n\<bar>) = ''0'') = (n = 0)"
  by (simp add: to_hex_def to_hex_body_def py_hex_def hex_to_nat_def hex_digits_nonempty
        parse_hex_digits hd_hex_digits hex_digits_zero)

text \<open>
  Claim C1, as stated, at \<open>n = -1\<close>: the result is \<open>-0x1\<close>, which does not begin
  with \<open>0x\<close>.
\<close>

theorem to_hex_negative_counterexample:
  "to_hex (PInt (- 1)) = ([], Inr ''-0x1'') \<and> take 2 ''-0x1'' \<noteq> ''0x''"
  by (simp add: to_hex_def to_hex_body_def py_hex_def hex_digits.simps Py_hexdigits_def)

section \<open>Hexadecimal form of a text\<close>

lemma utf8_char_bytes:
  assumes "is_codepoint c" and "b \<in> set (utf8_char c)"
  shows "b < 256"
  using assms by (auto simp: utf8_char_def is_codepoint_def split: if_splits)

lemma utf8_encode_from_bytes:
  assumes "utf8_encode_from obj i s = Inr bs" and "is_text s" and "b \<in> set bs"
  shows "b < 256"
  using assms
proof (induction s arbitrary: i bs)
  case Nil
  then show ?case by simp
next
  case (Cons c cs)
  from Cons.prems(1) obtain bs' where
    rest: "utf8_encode_from obj (i + 1) cs = Inr bs'" and bs: "bs = utf8_char c @ bs'"
    by (auto split: if_splits sum.splits)
  from Cons.prems(2) have c: "is_codepoint c" and cs: "is_text cs"
    by (simp_all add: is_text_def)
  from Cons.prems(3) bs consider "b \<in> set (utf8_char c)" | "b \<in> set bs'" by auto
  then show ?case
  proof cases
    case 1
    with c show ?thesis by (rule utf8_char_bytes)
  next
    case 2
    with Cons.IH rest cs show ?thesis by blast
  qed
qed

lemma length_bytes_hex: "length (bytes_hex bs) = 2 * length bs"
  by (induction bs) simp_all

lemma bytes_fromhex_hex:
  assumes "\<forall>b\<in>set bs. b < 256"
  shows "bytes_fromhex (bytes_hex bs) = Some bs"
  using assms
proof (induction bs)
  case Nil
  then show ?case by simp
next
  case (Cons b bs)
  then have b: "b < 256" and IH: "bytes_fromhex (bytes_hex bs) = Some bs" by simp_all
  from b have "b div 16 < 16" by (simp add: div_less_iff_less_mult)
  then have "16 * (b div 16 mod 16) + b mod 16 = b" by simp
  with IH show ?case by (simp add: hexdigit_nth)
qed

text \<open>
  Claim C3.  For every text \<open>s\<close>, \<open>to_hex\<close> gives the hexadecimal rendering of the
  UTF-8 bytes of \<open>s\<close>: two lowercase digits per byte and nothing else, so that the
  result reads back, two digits at a time, as exactly those bytes; where the
  codec refuses \<open>s\<close>, \<open>to_hex\<close> fails with the codec's error.  In particular the
  text \<open>abc\<close> gives \<open>616263\<close>.
\<close>

theorem to_hex_text:
  assumes "is_text s"
  shows "(case str_encode_utf8 s of
            Inr bs \<Rightarrow>
              to_hex (PStr s) = ([], Inr (bytes_hex bs))
              \<and> length (bytes_hex bs) = 2 * length bs
              \<and> bytes_fromhex (bytes_hex bs) = Some bs
          | Inl e \<Rightarrow> snd (to_hex (PStr s)) = Inl e)
         \<and> to_hex (PStr (text_of ''abc'')) = ([], Inr ''616263'')"
proof -
  have "to_hex (PStr (text_of ''abc'')) = ([], Inr ''616263'')"
    by (simp add: to_hex_def to_hex_body_def str_encode_utf8_def text_of_def
          is_surrogate_def utf8_char_def Py_hexdigits_def)
  moreover have "case str_encode_utf8 s of
            Inr bs \<Rightarrow>
              to_hex (PStr s) = ([], Inr (bytes_hex bs))
              \<and> length (bytes_hex bs) = 2 * length bs
              \<and> bytes_fromhex (bytes_hex bs) = Some bs
          | Inl e \<Rightarrow> snd (to_hex (PStr s)) = Inl e"
  proof (cases "str_encode_utf8 s")
    case (Inl e)
    then show ?thesis by (simp add: to_hex_def to_hex_body_def)
  next
    case (Inr bs)
    with assms have "\<forall>b\<in>set bs. b < 256"
      unfolding str_encode_utf8_def by (blast intro: utf8_encode_from_bytes)
    with Inr show ?thesis
      by (simp add: to_hex_def to_hex_body_def length_bytes_hex bytes_fromhex_hex)
  qed
  ultimately show ?thesis by simp
qed

theorem to_hex_text_witness:
  "is_text [0xE9, 0x20AC]
   \<and> to_hex (PStr [0xE9, 0x20AC]) = ([], Inr ''c3a9e282ac'')
   \<and> bytes_fromhex ''c3a9e282ac'' = Some [0xC3, 0xA9, 0xE2, 0x82, 0xAC]"
  using to_hex_text [of "[0xE9, 0x20AC]"]
  by (simp add: is_text_def is_codepoint_def str_encode_utf8_def is_surrogate_def
        utf8_char_def Py_hexdigits_def hex_digit_value_def)

section \<open>Texts that the codec accepts\<close>

lemma utf8_encode_scalar:
  assumes "is_scalar_text s"
  shows "utf8_encode_from obj i s = Inr (concat (map utf8_char s))"
  using assms by (induction s arbitrary: i) (simp_all add: is_scalar_text_def)

lemma str_encode_scalar:
  "is_scalar_text s \<Longrightarrow> str_encode_utf8 s = Inr (concat (map utf8_char s))"
  by (simp add: str_encode_utf8_def utf8_encode_scalar)

text \<open>
  Claim C10, as the code has it.  For every text without a surrogate code point
  (the empty text included), \<open>to_hex\<close>, \<open>to_base64\<close> and \<open>to_md5\<close> return a result
  and log nothing, and so does \<open>randomly_convert\<close> for each of the three indices
  the random source can draw.
\<close>

theorem scalar_text_never_fails:
  assumes "is_scalar_text s" and "rnd < 3"
  shows "\<exists>h b m r. to_hex (PStr s) = ([], Inr h)
           \<and> to_base64 (PStr s) = ([], Inr b)
           \<and> to_md5 (PStr s) = ([], Inr m)
           \<and> randomly_convert rnd (PStr s) = ([], Inr r)"
proof -
  let ?bs = "concat (map utf8_char s)"
  from assms(1) have enc: "str_encode_utf8 s = Inr ?bs" by (rule str_encode_scalar)
  then have h: "to_hex (PStr s) = ([], Inr (bytes_hex ?bs))"
    and b: "to_base64 (PStr s) = ([], Inr (b64encode ?bs))"
    and m: "to_md5 (PStr s) = ([], Inr (md5_hexdigest ?bs))"
    by (simp_all add: to_hex_def to_hex_body_def to_base64_def to_md5_def)
  from assms(2) consider "rnd = 0" | "rnd = 1" | "rnd = 2" by linarith
  then have "\<exists>r. randomly_convert rnd (PStr s) = ([], Inr r)"
    by cases (simp_all add: randomly_convert_def random_choice_def methods_def h b m)
  with h b m show ?thesis by blast
qed

theorem scalar_text_never_fails_witness:
  "is_scalar_text [0x61, 0x20AC] \<and> (2::nat) < 3
   \<and> (\<exists>h b m r. to_hex (PStr [0x61, 0x20AC]) = ([], Inr h)
           \<and> to_base64 (PStr [0x61, 0x20AC]) = ([], Inr b)
           \<and> to_md5 (PStr [0x61, 0x20AC]) = ([], Inr m)
           \<and> randomly_convert 2 (PStr [0x61, 0x20AC]) = ([], Inr r))"
  using scalar_text_never_fails [of "[0x61, 0x20AC]" 2]
  by (simp add: is_scalar_text_def is_codepoint_def is_surrogate_def)

text \<open>
  Claim C10, as stated, at the text that consists of the lone surrogate U+DC80:
  the UTF-8 codec refuses it, and all four operations raise
  \<open>UnicodeEncodeError\<close>.
\<close>

theorem surrogate_text_fails_counterexample:
  "is_text [0xDC80]
   \<and> snd (to_hex (PStr [0xDC80])) = Inl (UnicodeEncodeError [0xDC80] 0 1)
   \<and> snd (to_base64 (PStr [0xDC80])) = Inl (UnicodeEncodeError [0xDC80] 0 1)
   \<and> snd (to_md5 (PStr [0xDC80])) = Inl (UnicodeEncodeError [0xDC80] 0 1)
   \<and> snd (randomly_convert 0 (PStr [0xDC80])) = Inl (UnicodeEncodeError [0xDC80] 0 1)"
  by (simp add: is_text_def is_codepoint_def to_hex_def to_hex_body_def to_base64_def
        to_md5_def randomly_convert_def random_choice_def methods_def
        str_encode_utf8_def is_surrogate_def)

section \<open>The command line: integer first for the hex method\<close>

lemma dec_digit_table:
  "list_all (\<lambda>k. (of_char (''0123456789'' ! k) :: nat) = 48 + k) [0..<10]"
  by code_simp

lemma dec_digit_nth: "k < 10 \<Longrightarrow> (of_char (''0123456789'' ! k) :: nat) = 48 + k"
  using dec_digit_table by (auto simp: list_all_iff)

lemma text_of_dec_digits:
  "text_of (dec_digits n) =
     (if n < 10 then [48 + n] else text_of (dec_digits (n div 10)) @ [48 + n mod 10])"
  by (subst dec_digits.simps) (simp add: text_of_def dec_digit_nth)

lemma dec_text_digits: "c \<in> set (text_of (dec_digits n)) \<Longrightarrow> 48 \<le> c \<and> c \<le> 57"
proof (induction n rule: dec_digits.induct)
  case (1 n)
  show ?case
  proof (cases "n < 10")
    case True
    with "1.prems" show ?thesis by (subst (asm) text_of_dec_digits) simp
  next
    case False
    with "1.prems" have "c \<in> set (text_of (dec_digits (n div 10))) \<or> c = 48 + n mod 10"
      by (subst (asm) text_of_dec_digits) auto
    then show ?thesis
    proof
      assume "c \<in> set (text_of (dec_digits (n div 10)))"
      with "1.IH" False show ?thesis by simp
    next
      assume "c = 48 + n mod 10"
      moreover have "n mod 10 < 10" by simp
      ultimately show ?thesis by linarith
    qed
  qed
qed

lemma dec_text_value: "foldl (\<lambda>a c. 10 * a + (c - 48)) 0 (text_of (dec_digits n)) = n"
proof (induction n rule: dec_digits.induct)
  case (1 n)
  show ?case
  proof (cases "n < 10")
    case True
    then show ?thesis by (subst text_of_dec_digits) simp
  next
    case False
    with 1 have "foldl (\<lambda>a c. 10 * a + (c - 48)) 0 (text_of (dec_digits (n div 10))) = n div 10"
      by simp
    with False show ?thesis by (subst text_of_dec_digits) simp
  qed
qed

lemma dec_text_nonempty: "text_of (dec_digits n) \<noteq> []"
  by (subst text_of_dec_digits) simp

lemma scan_all_digits:
  assumes "\<forall>c\<in>set ds. 48 \<le> c \<and> c \<le> 57"
  shows "scan_digits prev k v ds =
           Some (last (prev # ds), k + length ds, foldl (\<lambda>a c. 10 * a + (c - 48)) v ds, [])"
  using assms by (induction ds arbitrary: prev k v) auto

lemma py_int_decimal:
  assumes "length (dec_digits n) \<le> 4300"
  shows "py_int (text_of (dec_digits n)) = Some (int n)"
proof -
  let ?ds = "text_of (dec_digits n)"
  have dig: "\<forall>c\<in>set ?ds. 48 \<le> c \<and> c \<le> 57" using dec_text_digits by blast
  have ne: "?ds \<noteq> []" by (rule dec_text_nonempty)
  then obtain c cs where cs: "?ds = c # cs" by (cases ?ds) auto
  with dig have c: "48 \<le> c \<and> c \<le> 57" by simp
  from dig have ascii: "list_all (\<lambda>c. c < 128) ?ds" by (auto simp: list_all_iff)
  from dig ne have lst: "48 \<le> last ?ds \<and> last ?ds \<le> 57" using last_in_set by blast
  have len: "length ?ds = length (dec_digits n)" by (simp add: text_of_def)
  have scan: "scan_digits 0 0 0 ?ds = Some (last ?ds, length ?ds, n, [])"
    using scan_all_digits [OF dig, of 0 0 0] ne by (simp add: dec_text_value)
  have dw: "dropWhile Py_ISSPACE ?ds = ?ds"
    using c by (simp add: cs Py_ISSPACE_def)
  have h: "hd ?ds \<noteq> 0x2D" "hd ?ds \<noteq> 0x2B" "hd ?ds \<noteq> 0x5F"
    using c by (simp_all add: cs)
  have l: "last ?ds \<noteq> 0x5F" using lst by simp
  have ne': "dec_digits n \<noteq> []" using ne by (simp add: text_of_def)
  have "PyLong_FromString ?ds = Some (int n)"
    unfolding PyLong_FromString_def Let_def
    using assms len ne ne' h l
    by (simp add: dw scan int_max_str_digits_def)
  with ascii show ?thesis
    by (simp add: py_int_def transform_decimal_and_space_to_ascii_def)
qed


lemma no_surrogate_encodes:
  assumes "\<not> list_ex is_surrogate s"
  shows "utf8_encode_from obj i s = Inr (concat (map utf8_char s))"
  using assms by (induction s arbitrary: i) simp_all

lemma surrogate_refused:
  assumes "list_ex is_surrogate s"
  shows "\<exists>j k. utf8_encode_from obj i s = Inl (UnicodeEncodeError obj j k)"
  using assms
proof (induction s arbitrary: i)
  case Nil
  then show ?case by simp
next
  case (Cons c cs)
  show ?case
  proof (cases "is_surrogate c")
    case True
    then show ?thesis by simp
  next
    case False
    with Cons.prems have "list_ex is_surrogate cs" by simp
    then obtain j k where "utf8_encode_from obj (i + 1) cs = Inl (UnicodeEncodeError obj j k)"
      using Cons.IH by blast
    with False show ?thesis by simp
  qed
qed

text \<open>
  Claim C7.  With the hex method the command line passes to \<open>to_hex\<close> the integer
  that \<open>int\<close> reads from the argument when it reads one, and the argument itself,
  as text, when \<open>int\<close> raises.  The decimal numeral of a natural number \<open>m\<close> (of at
  most 4300 digits, the bound of \<open>int\<close>) is read as \<open>m\<close>, so that the program prints
  the hexadecimal form of \<open>m\<close>; in particular the argument \<open>42\<close> prints \<open>0x2a\<close>.
\<close>

theorem cli_hex_integer_first:
  "(py_int d = Some n \<longrightarrow> convert \<lparr>data = d, arg_method = Hex\<rparr> rnd = to_hex (PInt n))
   \<and> (py_int d = None \<longrightarrow> convert \<lparr>data = d, arg_method = Hex\<rparr> rnd = to_hex (PStr d))
   \<and> (length (dec_digits m) \<le> 4300 \<longrightarrow>
        main \<lparr>data = text_of (dec_digits m), arg_method = Hex\<rparr> rnd
          = \<lparr>stdout = [''Converted data: 0x'' @ hex_digits m], stderr = [], exit_code = 0\<rparr>)
   \<and> main \<lparr>data = text_of ''42'', arg_method = Hex\<rparr> rnd
         = \<lparr>stdout = [''Converted data: 0x2a''], stderr = [], exit_code = 0\<rparr>"
proof -
  have dec: "main \<lparr>data = text_of (dec_digits m), arg_method = Hex\<rparr> rnd
          = \<lparr>stdout = [''Converted data: 0x'' @ hex_digits m], stderr = [], exit_code = 0\<rparr>"
    if "length (dec_digits m) \<le> 4300" for m
    using py_int_decimal [OF that]
    by (simp add: main_def convert_def to_hex_def to_hex_body_def py_hex_def)
  have d42: "dec_digits 42 = ''42''"
    by (simp add: dec_digits.simps)
  have h42: "hex_digits 42 = ''2a''"
    by (simp add: hex_digits.simps Py_hexdigits_def)
  have "main \<lparr>data = text_of ''42'', arg_method = Hex\<rparr> rnd
         = \<lparr>stdout = [''Converted data: 0x2a''], stderr = [], exit_code = 0\<rparr>"
    using dec [of 42] by (simp add: d42 h42)
  with dec show ?thesis by (simp add: convert_def)
qed

theorem cli_hex_integer_first_witness:
  "py_int (text_of ''-7'') = Some (- 7)
   \<and> convert \<lparr>data = text_of ''-7'', arg_method = Hex\<rparr> 0 = ([], Inr ''-0x7'')
   \<and> py_int (text_of ''abc'') = None
   \<and> convert \<lparr>data = text_of ''abc'', arg_method = Hex\<rparr> 0 = ([], Inr ''616263'')
   \<and> length (dec_digits 255) \<le> 4300
   \<and> main \<lparr>data = text_of (dec_digits 255), arg_method = Hex\<rparr> 0
         = \<lparr>stdout = [''Converted data: 0xff''], stderr = [], exit_code = 0\<rparr>"
proof -
  have a: "py_int (text_of ''-7'') = Some (- 7)"
    by (simp add: py_int_def transform_decimal_and_space_to_ascii_def text_of_def
          PyLong_FromString_def Py_ISSPACE_def int_max_str_digits_def)
  have b: "py_int (text_of ''abc'') = None"
    by (simp add: py_int_def transform_decimal_and_space_to_ascii_def text_of_def
          PyLong_FromString_def Py_ISSPACE_def int_max_str_digits_def)
  have c: "length (dec_digits 255) \<le> 4300"
    by (simp add: dec_digits.simps)
  have h7: "to_hex (PInt (- 7)) = ([], Inr ''-0x7'')"
    by (simp add: to_hex_def to_hex_body_def py_hex_def hex_digits.simps Py_hexdigits_def)
  have habc: "to_hex (PStr (text_of ''abc'')) = ([], Inr ''616263'')"
    by (simp add: to_hex_def to_hex_body_def str_encode_utf8_def text_of_def
          is_surrogate_def utf8_char_def Py_hexdigits_def)
  have hff: "hex_digits 255 = ''ff''"
    by (simp add: hex_digits.simps Py_hexdigits_def)
  show ?thesis
    using cli_hex_integer_first [of "text_of ''-7''" "- 7" 0 "255"]
          cli_hex_integer_first [of "text_of ''abc''" 0 0 "255"] a b c
    by (simp add: h7 habc hff)
qed

section \<open>The command line: output and exit code\<close>

lemma str_encode_cases:
  "(\<not> list_ex is_surrogate s \<and> str_encode_utf8 s = Inr (concat (map utf8_char s)))
   \<or> (list_ex is_surrogate s \<and> (\<exists>j k. str_encode_utf8 s = Inl (UnicodeEncodeError s j k)))"
  unfolding str_encode_utf8_def
  using no_surrogate_encodes [of s s 0] surrogate_refused [of s s 0] by blast

lemma to_hex_outcome: "op_outcome s (to_hex (PStr s))"
  using str_encode_cases [of s]
  by (auto simp: op_outcome_def to_hex_def to_hex_body_def)

lemma to_base64_outcome: "op_outcome s (to_base64 (PStr s))"
  using str_encode_cases [of s]
  by (auto simp: op_outcome_def to_base64_def)

lemma to_md5_outcome: "op_outcome s (to_md5 (PStr s))"
  using str_encode_cases [of s]
  by (auto simp: op_outcome_def to_md5_def)

lemma randomly_convert_outcome:
  assumes "rnd < 3"
  shows "op_outcome s (randomly_convert rnd (PStr s))"
proof -
  from assms consider "rnd = 0" | "rnd = 1" | "rnd = 2" by linarith
  then show ?thesis
  proof cases
    case 1
    with to_hex_outcome [of s] show ?thesis
      by (auto simp: op_outcome_def randomly_convert_def random_choice_def methods_def)
  next
    case 2
    with to_base64_outcome [of s] show ?thesis
      by (auto simp: op_outcome_def randomly_convert_def random_choice_def methods_def)
  next
    case 3
    with to_md5_outcome [of s] show ?thesis
      by (auto simp: op_outcome_def randomly_convert_def random_choice_def methods_def)
  qed
qed

lemma to_hex_int_outcome: "\<exists>r. to_hex (PInt n) = ([], Inr r)"
  by (simp add: to_hex_def to_hex_body_def)

lemma convert_outcome:
  assumes "rnd < 3"
  shows "(arg_method a = Hex \<and> py_int (data a) \<noteq> None \<and> (\<exists>r. convert a rnd = ([], Inr r)))
         \<or> (\<not> (arg_method a = Hex \<and> py_int (data a) \<noteq> None)
             \<and> op_outcome (data a) (convert a rnd))"
proof (cases "arg_method a")
  case Hex
  show ?thesis
  proof (cases "py_int (data a)")
    case None
    with Hex to_hex_outcome [of "data a"] show ?thesis by (simp add: convert_def)
  next
    case (Some n)
    with Hex to_hex_int_outcome [of n] show ?thesis by (simp add: convert_def)
  qed
next
  case Base64
  with to_base64_outcome [of "data a"] show ?thesis by (simp add: convert_def)
next
  case Md5
  with to_md5_outcome [of "data a"] show ?thesis by (simp add: convert_def)
next
  case Random
  with randomly_convert_outcome [OF assms, of "data a"] show ?thesis by (simp add: convert_def)
qed

text \<open>
  Claim C8.  For every parsed command line and every index the random source can
  draw: when the selected conversion returns \<open>r\<close>, the program writes the line
  \<open>Converted data: r\<close> to standard output, nothing to standard error, and exits
  with code 0; when it raises \<open>e\<close>, standard output stays empty, standard error
  receives the log records and then the line \<open>Error:\<close> followed by the message of
  \<open>e\<close>, and the exit code is 1.  The conversion returns exactly when the hex method
  reads an integer or the argument has no surrogate.
\<close>

theorem main_outcome:
  assumes "rnd < 3"
  shows "(case convert a rnd of
            (log, Inr r) \<Rightarrow>
              log = []
              \<and> main a rnd
                  = \<lparr>stdout = [''Converted data: '' @ r], stderr = [], exit_code = 0\<rparr>
          | (log, Inl e) \<Rightarrow>
              main a rnd
                = \<lparr>stdout = [],
                   stderr = map Logged log
                     @ [Logged (LogError ((if is_TypeError e then ''Type error: ''
                                           else ''Value error: '') @ exc_str e)),
                        Printed (''Error: '' @ exc_str e)],
                   exit_code = 1\<rparr>)
         \<and> ((\<exists>r. snd (convert a rnd) = Inr r)
              = ((arg_method a = Hex \<and> py_int (data a) \<noteq> None)
                 \<or> \<not> list_ex is_surrogate (data a)))"
  using convert_outcome [OF assms, of a]
  by (auto simp: op_outcome_def main_def)

theorem main_outcome_witness:
  "(0::nat) < 3
   \<and> main \<lparr>data = text_of ''abc'', arg_method = Base64\<rparr> 0
       = \<lparr>stdout = [''Converted data: YWJj''], stderr = [], exit_code = 0\<rparr>
   \<and> main \<lparr>data = [0xDC80], arg_method = Base64\<rparr> 0
       = \<lparr>stdout = [],
          stderr =
            [Logged (LogError (''Error converting to base64: ''
                               @ exc_str (UnicodeEncodeError [0xDC80] 0 1))),
             Logged (LogError (''Value error: '' @ exc_str (UnicodeEncodeError [0xDC80] 0 1))),
             Printed (''Error: '' @ exc_str (UnicodeEncodeError [0xDC80] 0 1))],
          exit_code = 1\<rparr>"
proof -
  have ok: "convert \<lparr>data = text_of ''abc'', arg_method = Base64\<rparr> 0 = ([], Inr ''YWJj'')"
    by (simp add: convert_def to_base64_def str_encode_utf8_def text_of_def is_surrogate_def
          utf8_char_def b64_char_def b64_alphabet_def)
  have bad: "convert \<lparr>data = [0xDC80], arg_method = Base64\<rparr> 0
      = ([LogError (''Error converting to base64: ''
                    @ exc_str (UnicodeEncodeError [0xDC80] 0 1))],
         Inl (UnicodeEncodeError [0xDC80] 0 1))"
    by (simp add: convert_def to_base64_def str_encode_utf8_def is_surrogate_def)
  show ?thesis
    using main_outcome [of 0 "\<lparr>data = text_of ''abc'', arg_method = Base64\<rparr>"]
          main_outcome [of 0 "\<lparr>data = [0xDC80], arg_method = Base64\<rparr>"]
    unfolding ok bad by simp
qed

end
